theory Spec2Isabelle
  imports Main
begin

section \<open>The process environment\<close>

text \<open>
  \<open>lpm.py\<close> reads its surroundings through \<open>sys.executable\<close>, \<open>sys.frozen\<close>,
  \<open>os.path.exists\<close> and \<open>shutil.which\<close>, and changes them through
  \<open>Path.mkdir\<close> and \<open>subprocess.run\<close>. The surroundings are one record that the
  functions take and, where they change it, return.
\<close>

datatype node = File | Dir

text \<open>
  A \<open>pathlib.PurePosixPath\<close>: the root (\<open>''''\<close>, \<open>''/''\<close> or \<open>''//''\<close>) and the
  components after it.
\<close>

datatype path = PosixPath (p_root: string) (p_tail: "string list")

text \<open>A place in the file system: the names from the root down.\<close>

type_synonym location = "string list"

type_synonym fs = "location \<Rightarrow> node option"

type_synonym environ = "(string \<times> string) list"

text \<open>
  The exceptions that can leave \<open>build_python_package_from_pip\<close>: the
  \<open>RuntimeError\<close> of the resolver with its message, an \<open>OSError\<close> of
  \<open>mkdir\<close> or of starting the child, the \<open>ValueError\<close> for a NUL character in
  a path or an argument, and the \<open>CalledProcessError\<close> of
  \<open>subprocess.run(check=True)\<close> with the status and the command.
\<close>

datatype oserror =
  FileNotFoundError | NotADirectoryError | FileExistsError | PermissionError | NameTooLongError

datatype error =
    RuntimeError string
  | OSError oserror
  | ValueError
  | CalledProcessError int "string list"

text \<open>
  What comes of a call of \<open>subprocess.run\<close>: the child could not be started (an
  \<open>OSError\<close>), the arguments were rejected before any child was made (a
  \<open>ValueError\<close>), or the child ran, left the file system in some state and exited
  with a status.
\<close>

datatype outcome = SpawnFailed oserror | Rejected | Exited int fs

record spawn =
  sp_cmd :: "string list"
  sp_env :: "environ option"
  sp_fs :: fs
  sp_outcome :: outcome

text \<open>
  The world: the running interpreter and the frozen flag of \<open>sys\<close>; the directories
  of \<open>PATH\<close> and what \<open>os.path.exists\<close>, \<open>os.access\<close> and
  \<open>os.path.isdir\<close> answer for a path text; the working directory; the path texts
  that the system rejects outright (too long) and the directories that it refuses to
  make; the file system; how a child process behaves; and the calls of
  \<open>subprocess.run\<close> so far.
\<close>

record world =
  sys_executable :: "string option"
  sys_frozen :: bool
  path_dirs :: "string list"
  os_path_exists :: "string \<Rightarrow> bool"
  os_access_x :: "string \<Rightarrow> bool"
  os_path_isdir :: "string \<Rightarrow> bool"
  cwd :: location
  path_rejected :: "path \<Rightarrow> bool"
  mkdir_refused :: "location \<Rightarrow> bool"
  fs :: fs
  run_process :: "string list \<Rightarrow> environ option \<Rightarrow> fs \<Rightarrow> outcome"
  spawned :: "spawn list"

section \<open>Strings\<close>

text \<open>Python's truth value of a \<open>str | None\<close>: \<open>None\<close> and \<open>""\<close> are false.\<close>

fun truthy :: "string option \<Rightarrow> bool" where
  "truthy None = False"
| "truthy (Some s) = (s \<noteq> [])"

definition startswith :: "string \<Rightarrow> string \<Rightarrow> bool" where
  "startswith s pre = (take (length pre) s = pre)"

text \<open>\<open>posixpath.basename\<close>: what follows the last \<open>/\<close>.\<close>

definition os_path_basename :: "string \<Rightarrow> string" where
  "os_path_basename p = rev (takeWhile (\<lambda>c. c \<noteq> CHR ''/'') (rev p))"

text \<open>\<open>posixpath.join\<close> of two parts.\<close>

definition os_path_join :: "string \<Rightarrow> string \<Rightarrow> string" where
  "os_path_join a b =
     (if startswith b ''/'' then b
      else if a = [] \<or> last a = CHR ''/'' then a @ b
      else a @ ''/'' @ b)"

fun str_join :: "string \<Rightarrow> string list \<Rightarrow> string" where
  "str_join sep [] = []"
| "str_join sep [x] = x"
| "str_join sep (x # y # ys) = x @ sep @ str_join sep (y # ys)"

definition hexdigit :: "nat \<Rightarrow> char" where
  "hexdigit k = ''0123456789abcdef'' ! (k mod 16)"

text \<open>
  \<open>repr\<close> of a \<open>str\<close>, a character standing for the code point of its number
  (0 to 255): the quote is \<open>'\<close> unless the string has a \<open>'\<close> and no \<open>"\<close>; the
  quote and the backslash are escaped, tab, newline and carriage return are written
  \<open>\t\<close>, \<open>\n\<close>, \<open>\r\<close>, and the other code points that are not printable
  (below 32, 127 to 160, and 173) \<open>\xhh\<close>.
\<close>

definition repr_char :: "char \<Rightarrow> char \<Rightarrow> string" where
  "repr_char q c =
     (if c = q \<or> c = CHR 0x5C then [CHR 0x5C, c]
      else if c = CHR 0x09 then [CHR 0x5C, CHR ''t'']
      else if c = CHR 0x0A then [CHR 0x5C, CHR ''n'']
      else if c = CHR 0x0D then [CHR 0x5C, CHR ''r'']
      else if (of_char c :: nat) < 32 \<or> (127 \<le> (of_char c :: nat) \<and> (of_char c :: nat) \<le> 160)
              \<or> (of_char c :: nat) = 173
        then [CHR 0x5C, CHR ''x'', hexdigit ((of_char c :: nat) div 16), hexdigit (of_char c)]
      else [c])"

definition repr_str :: "string \<Rightarrow> string" where
  "repr_str s =
     (let q = (if CHR 0x27 \<in> set s \<and> CHR 0x22 \<notin> set s then CHR 0x22 else CHR 0x27)
      in [q] @ concat (map (repr_char q) s) @ [q])"

fun repr :: "string option \<Rightarrow> string" where
  "repr None = ''None''"
| "repr (Some s) = repr_str s"

section \<open>Looking a command up on PATH\<close>

text \<open>
  \<open>shutil.which\<close> for a bare command name, as at both call sites: the directories
  of \<open>PATH\<close> in order, the first \<open>os.path.join(dir, cmd)\<close> that exists, is
  executable and is not a directory.
\<close>

definition access_check :: "world \<Rightarrow> string \<Rightarrow> bool" where
  "access_check w fn = (os_path_exists w fn \<and> os_access_x w fn \<and> \<not> os_path_isdir w fn)"

definition shutil_which :: "world \<Rightarrow> string \<Rightarrow> string option" where
  "shutil_which w cmd = List.find (access_check w) (map (\<lambda>d. os_path_join d cmd) (path_dirs w))"

section \<open>\<open>_resolve_python_executable\<close>\<close>

text \<open>The list built before the loop: the running interpreter if it exists, then the two lookups.\<close>

definition candidates :: "world \<Rightarrow> string option list" where
  "candidates w =
     (if truthy (sys_executable w) \<and> os_path_exists w (the (sys_executable w))
      then [sys_executable w] else [])
     @ [shutil_which w ''python3'', shutil_which w ''python'']"

text \<open>
  The second test of the loop body: the candidate is \<open>sys.executable\<close>, the process is
  frozen, and the base name does not start with \<open>python\<close>.
\<close>

definition frozen_launcher :: "world \<Rightarrow> string \<Rightarrow> bool" where
  "frozen_launcher w c =
     (Some c = sys_executable w \<and> sys_frozen w \<and> \<not> startswith (os_path_basename c) ''python'')"

text \<open>The \<open>for\<close> loop: \<open>None\<close> when it runs off the end of the list.\<close>

fun first_usable :: "world \<Rightarrow> string option list \<Rightarrow> string option" where
  "first_usable w [] = None"
| "first_usable w (c # cs) =
     (if \<not> truthy c \<or> \<not> os_path_exists w (the c) then first_usable w cs
      else if frozen_launcher w (the c) then first_usable w cs
      else c)"

definition resolve_message :: "string option list \<Rightarrow> string" where
  "resolve_message cs =
     ''Unable to determine a Python interpreter; tried the following candidates: ''
     @ str_join '', '' (map repr cs)"

definition resolve_python_executable :: "world \<Rightarrow> string option \<Rightarrow> error + string" where
  "resolve_python_executable w explicit =
     (if truthy explicit then Inr (the explicit)
      else case first_usable w (candidates w) of
             Some c \<Rightarrow> Inr c
           | None \<Rightarrow> Inl (RuntimeError (resolve_message (candidates w))))"

section \<open>Paths and directories\<close>

text \<open>\<open>str.split(sep)\<close> with a one-character separator.\<close>

fun split_sep :: "char \<Rightarrow> string \<Rightarrow> string list" where
  "split_sep c [] = [[]]"
| "split_sep c (x # xs) =
     (if x = c then [] # split_sep c xs
      else case split_sep c xs of [] \<Rightarrow> [[x]] | y # ys \<Rightarrow> (x # y) # ys)"

text \<open>
  \<open>posixpath.splitroot\<close> without the drive, which is always empty: no leading slash,
  exactly two leading slashes, or any other number of them.
\<close>

definition splitroot :: "string \<Rightarrow> string \<times> string" where
  "splitroot p =
     (if take 1 p \<noteq> ''/'' then ([], p)
      else if take 1 (drop 1 p) \<noteq> ''/'' \<or> take 1 (drop 2 p) = ''/'' then (''/'', drop 1 p)
      else (take 2 p, drop 2 p))"

text \<open>
  \<open>Path(destination)\<close>: empty components and \<open>.\<close> are dropped; \<open>..\<close> stays, as
  pathlib leaves it to the operating system.
\<close>

definition Path :: "string \<Rightarrow> path" where
  "Path s =
     (case splitroot s of
        (r, rel) \<Rightarrow> PosixPath r (filter (\<lambda>x. x \<noteq> [] \<and> x \<noteq> ''.'') (split_sep CHR ''/'' rel)))"

text \<open>\<open>str(path)\<close>; the empty path is written \<open>.\<close>.\<close>

definition str_path :: "path \<Rightarrow> string" where
  "str_path p =
     (let s = p_root p @ str_join ''/'' (p_tail p) in if s = [] then ''.'' else s)"

text \<open>\<open>path.parent\<close>: a path without components is its own parent.\<close>

definition parent :: "path \<Rightarrow> path" where
  "parent p = (if p_tail p = [] then p else PosixPath (p_root p) (butlast (p_tail p)))"

text \<open>
  The file system holds directories and regular files (no symbolic links, and every
  directory may be searched) at locations, which are lists of names from the root. The
  root is a directory.
\<close>

definition lookup :: "fs \<Rightarrow> location \<Rightarrow> node option" where
  "lookup f l = (if l = [] then Some Dir else f l)"

text \<open>
  Path resolution as the kernel does it. One component moves from a directory to an
  entry of it, and \<open>..\<close> to the directory above (the root is above itself). Every
  location that is left must be a directory: \<open>ENOENT\<close> if nothing is there,
  \<open>ENOTDIR\<close> if a file is. The location reached by the last component is not looked at.
\<close>

definition step :: "location \<Rightarrow> string \<Rightarrow> location" where
  "step l c = (if c = ''..'' then butlast l else l @ [c])"

fun walk :: "fs \<Rightarrow> location \<Rightarrow> string list \<Rightarrow> oserror + location" where
  "walk f l [] = Inr l"
| "walk f l (c # cs) =
     (case lookup f l of
        None \<Rightarrow> Inl FileNotFoundError
      | Some File \<Rightarrow> Inl NotADirectoryError
      | Some Dir \<Rightarrow> walk f (step l c) cs)"

text \<open>A relative path starts at the working directory, any other at the root.\<close>

definition start :: "world \<Rightarrow> path \<Rightarrow> location" where
  "start w p = (if p_root p = [] then cwd w else [])"

definition namei :: "world \<Rightarrow> fs \<Rightarrow> path \<Rightarrow> oserror + location" where
  "namei w f p = walk f (start w p) (p_tail p)"

definition stat :: "world \<Rightarrow> fs \<Rightarrow> path \<Rightarrow> oserror + node" where
  "stat w f p =
     (case namei w f p of
        Inl e \<Rightarrow> Inl e
      | Inr l \<Rightarrow> (case lookup f l of None \<Rightarrow> Inl FileNotFoundError | Some n \<Rightarrow> Inr n))"

definition has_nul :: "path \<Rightarrow> bool" where
  "has_nul p = list_ex (\<lambda>c. CHR 0x00 \<in> set c) (p_tail p)"

text \<open>
  \<open>Path.is_dir()\<close>: false for a path with a NUL character (the \<open>ValueError\<close> is
  caught) and when \<open>stat\<close> fails. For a path text that the system rejects \<open>stat\<close>
  raises the same error that \<open>os.mkdir\<close> raised; the caller below raises in both
  cases, so false stands for it.
\<close>

definition is_dir :: "world \<Rightarrow> fs \<Rightarrow> path \<Rightarrow> bool" where
  "is_dir w f p = (\<not> has_nul p \<and> \<not> path_rejected w p \<and> stat w f p = Inr Dir)"

text \<open>
  \<open>os.mkdir\<close>: \<open>ValueError\<close> for a NUL character; \<open>ENAMETOOLONG\<close> for a path text the
  system rejects; \<open>EEXIST\<close> for the working directory and the root; the errors of
  path resolution; \<open>EEXIST\<close> when the last component is \<open>..\<close> or something is there
  already; \<open>EACCES\<close> when the system refuses to make this directory (no permission to
  write, a read-only or full file system); otherwise the directory is made.
\<close>

definition os_mkdir :: "world \<Rightarrow> path \<Rightarrow> fs \<Rightarrow> error + fs" where
  "os_mkdir w p f =
     (if has_nul p then Inl ValueError
      else if path_rejected w p then Inl (OSError NameTooLongError)
      else if p_tail p = [] then Inl (OSError FileExistsError)
      else case namei w f p of
             Inl e \<Rightarrow> Inl (OSError e)
           | Inr l \<Rightarrow>
               if last (p_tail p) = ''..'' \<or> lookup f l \<noteq> None then Inl (OSError FileExistsError)
               else if mkdir_refused w l then Inl (OSError PermissionError)
               else Inr (f(l \<mapsto> Dir)))"

text \<open>
  \<open>pathlib.Path.mkdir(parents, exist_ok)\<close>:
  \<^verbatim>\<open>
  try: os.mkdir(self)
  except FileNotFoundError:
      if not parents or self.parent == self: raise
      self.parent.mkdir(parents=True, exist_ok=True)
      self.mkdir(parents=False, exist_ok=exist_ok)
  except OSError:
      if not exist_ok or not self.is_dir(): raise
  \<close>
  An exception that is no \<open>OSError\<close> passes through. The file system is returned also
  with an error: parents made before the failure stay.
\<close>

fun is_OSError :: "error \<Rightarrow> bool" where
  "is_OSError (OSError e) = True"
| "is_OSError e = False"

function Path_mkdir :: "world \<Rightarrow> bool \<Rightarrow> bool \<Rightarrow> path \<Rightarrow> fs \<Rightarrow> (error + unit) \<times> fs" where
  "Path_mkdir w parents exist_ok p f =
     (case os_mkdir w p f of
        Inr f' \<Rightarrow> (Inr (), f')
      | Inl e \<Rightarrow>
          if e = OSError FileNotFoundError then
            (if \<not> parents \<or> parent p = p then (Inl e, f)
             else case Path_mkdir w True True (parent p) f of
                    (Inl e', f1) \<Rightarrow> (Inl e', f1)
                  | (Inr u, f1) \<Rightarrow> Path_mkdir w False exist_ok p f1)
          else if is_OSError e then
            (if \<not> exist_ok \<or> \<not> is_dir w f p then (Inl e, f) else (Inr (), f))
          else (Inl e, f))"
  by pat_completeness auto
termination
proof (relation "measure (\<lambda>(w, ps, eo, p, f). 2 * length (p_tail p) + (if ps then 1 else 0))")
  show "wf (measure (\<lambda>(w, ps, eo, p, f). 2 * length (p_tail p) + (if ps then 1 else 0)))"
    by simp
next
  fix w :: world and parents exist_ok :: bool and p :: path and f :: fs
  assume "\<not> (\<not> parents \<or> parent p = p)"
  then have "p_tail p \<noteq> []" by (auto simp: parent_def)
  then show "((w, True, True, parent p, f), (w, parents, exist_ok, p, f))
      \<in> measure (\<lambda>(w, ps, eo, p, f). 2 * length (p_tail p) + (if ps then 1 else 0))"
    by (cases "p_tail p" rule: rev_cases) (auto simp: parent_def)
next
  fix w :: world and parents exist_ok :: bool and p :: path and f f1 :: fs
  assume "\<not> (\<not> parents \<or> parent p = p)"
  then show "((w, False, exist_ok, p, f1), (w, parents, exist_ok, p, f))
      \<in> measure (\<lambda>(w, ps, eo, p, f). 2 * length (p_tail p) + (if ps then 1 else 0))"
    by simp
qed

declare Path_mkdir.simps [simp del]

section \<open>\<open>build_python_package_from_pip\<close>\<close>

text \<open>
  \<open>subprocess.run(cmd, check=True, env=env)\<close>. An argument or an environment entry
  with a NUL character, or an environment name with \<open>=\<close>, is a \<open>ValueError\<close> and no
  child is made. Otherwise the child sees the file system as it is now. A child that
  cannot be started is an \<open>OSError\<close>, a status other than 0 a
  \<open>CalledProcessError\<close>. Every call is recorded with what came of it.
\<close>

definition bad_arguments :: "string list \<Rightarrow> environ option \<Rightarrow> bool" where
  "bad_arguments cmd env =
     (list_ex (\<lambda>a. CHR 0x00 \<in> set a) cmd
      \<or> (case env of
            None \<Rightarrow> False
          | Some kvs \<Rightarrow>
              list_ex (\<lambda>(k, v). CHR 0x00 \<in> set k \<or> CHR ''='' \<in> set k \<or> CHR 0x00 \<in> set v) kvs))"

definition subprocess_run :: "world \<Rightarrow> string list \<Rightarrow> environ option \<Rightarrow> (error + unit) \<times> world" where
  "subprocess_run w cmd env =
     (let out = (if bad_arguments cmd env then Rejected else run_process w cmd env (fs w));
          w1 = w\<lparr>spawned := spawned w
                  @ [\<lparr>sp_cmd = cmd, sp_env = env, sp_fs = fs w, sp_outcome = out\<rparr>]\<rparr>
      in case out of
           SpawnFailed e \<Rightarrow> (Inl (OSError e), w1)
         | Rejected \<Rightarrow> (Inl ValueError, w1)
         | Exited rc f' \<Rightarrow>
             if rc \<noteq> 0 then (Inl (CalledProcessError rc cmd), w1\<lparr>fs := f'\<rparr>)
             else (Inr (), w1\<lparr>fs := f'\<rparr>))"

definition build_python_package_from_pip ::
  "world \<Rightarrow> string \<Rightarrow> string \<Rightarrow> string option \<Rightarrow> string list option \<Rightarrow> environ option
   \<Rightarrow> (error + string) \<times> world" where
  "build_python_package_from_pip w package destination python_executable extra_pip_args env =
     (case resolve_python_executable w python_executable of
        Inl e \<Rightarrow> (Inl e, w)
      | Inr interpreter \<Rightarrow>
          let output_dir = Path destination in
          case Path_mkdir w True True output_dir (fs w) of
            (Inl e, f1) \<Rightarrow> (Inl e, w\<lparr>fs := f1\<rparr>)
          | (Inr u, f1) \<Rightarrow>
              let cmd = [interpreter, ''-m'', ''pip'', ''wheel'', package, ''--no-deps'', ''-w'',
                         str_path output_dir];
                  cmd = (if extra_pip_args \<noteq> None \<and> the extra_pip_args \<noteq> []
                         then cmd @ the extra_pip_args else cmd)
              in case subprocess_run (w\<lparr>fs := f1\<rparr>) cmd env of
                   (Inl e, w') \<Rightarrow> (Inl e, w')
                 | (Inr u', w') \<Rightarrow> (Inr interpreter, w'))"

section \<open>Notions used to state the properties\<close>

text \<open>The calls of \<open>subprocess.run\<close> made between two worlds.\<close>

definition new_spawns :: "world \<Rightarrow> world \<Rightarrow> spawn list" where
  "new_spawns w w' = drop (length (spawned w)) (spawned w')"

text \<open>A path and the paths above it, as pathlib sees them, from the top down.\<close>

definition ancestors_or_self :: "path \<Rightarrow> path list" where
  "ancestors_or_self p =
     map (\<lambda>k. PosixPath (p_root p) (take k (p_tail p))) [0..<Suc (length (p_tail p))]"

text \<open>Where a path leads when every directory on the way is there.\<close>

definition location_of :: "world \<Rightarrow> path \<Rightarrow> location" where
  "location_of w p = foldl step (start w p) (p_tail p)"


text \<open>
  Nothing stands in the way of making a directory: the path has no NUL character, the
  system rejects neither its text nor that of a path above it, no file is where
  the path or a path above it leads, and the system does not refuse to make what is
  missing there.
\<close>

definition unobstructed :: "world \<Rightarrow> fs \<Rightarrow> path \<Rightarrow> bool" where
  "unobstructed w f p =
     (\<not> has_nul p
      \<and> list_all
          (\<lambda>q. \<not> path_rejected w q
               \<and> lookup f (location_of w q) \<noteq> Some File
               \<and> \<not> (lookup f (location_of w q) = None \<and> mkdir_refused w (location_of w q)))
          (ancestors_or_self p))"

text \<open>
  The resolver as the specification words it: a candidate is rejected when it is absent
  or empty, when it does not exist on disk, or when it is the running interpreter, the
  process is frozen and its base name does not start with \<open>python\<close>; the result is
  the first of the running interpreter, \<open>python3\<close> on PATH and \<open>python\<close> on PATH
  that is not rejected.
\<close>

definition spec_rejected :: "world \<Rightarrow> string option \<Rightarrow> bool" where
  "spec_rejected w c =
     (c = None \<or> c = Some [] \<or> \<not> os_path_exists w (the c)
      \<or> (c = sys_executable w \<and> sys_frozen w
          \<and> \<not> startswith (os_path_basename (the c)) ''python''))"

definition spec_resolve :: "world \<Rightarrow> string option" where
  "spec_resolve w =
     (case List.find (\<lambda>c. \<not> spec_rejected w c)
             [sys_executable w, shutil_which w ''python3'', shutil_which w ''python''] of
        None \<Rightarrow> None
      | Some c \<Rightarrow> c)"

text \<open>One file system holds all of another and, beyond it, only new directories.\<close>

definition grows :: "fs \<Rightarrow> fs \<Rightarrow> bool" where
  "grows f f' = (\<forall>q. f' q = f q \<or> (f q = None \<and> f' q = Some Dir))"

text \<open>The command line of lines 114 to 116, written once.\<close>

definition pip_cmd :: "string \<Rightarrow> string \<Rightarrow> string \<Rightarrow> string list option \<Rightarrow> string list" where
  "pip_cmd interp pkg dest extra =
     [interp, ''-m'', ''pip'', ''wheel'', pkg, ''--no-deps'', ''-w'', str_path (Path dest)]
     @ (case extra of None \<Rightarrow> [] | Some xs \<Rightarrow> xs)"

section \<open>Worlds used as examples\<close>

text \<open>
  A frozen bundle: \<open>sys.executable\<close> is the launcher \<open>/opt/lpm/lpm\<close>,
  \<open>/usr/bin/python3\<close> is on \<open>PATH\<close>, the working directory \<open>/work\<close> is empty
  and pip succeeds.
\<close>

definition bundle_world :: world where
  "bundle_world =
     \<lparr> sys_executable = Some ''/opt/lpm/lpm'',
       sys_frozen = True,
       path_dirs = [''/usr/local/bin'', ''/usr/bin''],
       os_path_exists = (\<lambda>p. p \<in> {''/opt/lpm/lpm'', ''/usr/bin/python3''}),
       os_access_x = (\<lambda>p. p \<in> {''/opt/lpm/lpm'', ''/usr/bin/python3''}),
       os_path_isdir = (\<lambda>p. False),
       cwd = [''work''],
       path_rejected = (\<lambda>p. False),
       mkdir_refused = (\<lambda>l. False),
       fs = [[''work''] \<mapsto> Dir],
       run_process = (\<lambda>cmd env f. Exited 0 f),
       spawned = [] \<rparr>"

text \<open>
  The same bundle on a machine without an interpreter: the launcher is not on disk and
  PATH finds nothing.
\<close>

definition bare_world :: world where
  "bare_world =
     \<lparr> sys_executable = Some ''/opt/lpm/lpm'',
       sys_frozen = True,
       path_dirs = [''/usr/local/bin'', ''/usr/bin''],
       os_path_exists = (\<lambda>p. False),
       os_access_x = (\<lambda>p. False),
       os_path_isdir = (\<lambda>p. False),
       cwd = [''work''],
       path_rejected = (\<lambda>p. False),
       mkdir_refused = (\<lambda>l. False),
       fs = [[''work''] \<mapsto> Dir],
       run_process = (\<lambda>cmd env f. Exited 0 f),
       spawned = [] \<rparr>"

text \<open>
  Not frozen: the running interpreter is \<open>/opt/tools/runner\<close>, \<open>build/python\<close>
  is there already in the working directory \<open>/work\<close>, and pip exits with status 1.
\<close>

definition plain_world :: world where
  "plain_world =
     \<lparr> sys_executable = Some ''/opt/tools/runner'',
       sys_frozen = False,
       path_dirs = [''/usr/bin''],
       os_path_exists = (\<lambda>p. p \<in> {''/opt/tools/runner'', ''/usr/bin/python3''}),
       os_access_x = (\<lambda>p. p \<in> {''/opt/tools/runner'', ''/usr/bin/python3''}),
       os_path_isdir = (\<lambda>p. False),
       cwd = [''work''],
       path_rejected = (\<lambda>p. False),
       mkdir_refused = (\<lambda>l. False),
       fs = [[''work''] \<mapsto> Dir, [''work'', ''build''] \<mapsto> Dir,
             [''work'', ''build'', ''python''] \<mapsto> Dir],
       run_process = (\<lambda>cmd env f. Exited 1 f),
       spawned = [] \<rparr>"

text \<open>
  Not frozen, running \<open>/usr/bin/python3\<close>; the working directory \<open>/work\<close> holds
  the regular file \<open>b\<close>.
\<close>

definition blocked_world :: world where
  "blocked_world =
     \<lparr> sys_executable = Some ''/usr/bin/python3'',
       sys_frozen = False,
       path_dirs = [''/usr/bin''],
       os_path_exists = (\<lambda>p. p = ''/usr/bin/python3''),
       os_access_x = (\<lambda>p. p = ''/usr/bin/python3''),
       os_path_isdir = (\<lambda>p. False),
       cwd = [''work''],
       path_rejected = (\<lambda>p. False),
       mkdir_refused = (\<lambda>l. False),
       fs = [[''work''] \<mapsto> Dir, [''work'', ''b''] \<mapsto> File],
       run_process = (\<lambda>cmd env f. Exited 0 f),
       spawned = [] \<rparr>"

section \<open>Facts about strings and the PATH lookup\<close>

lemma startswith_slash: "startswith b ''/'' \<Longrightarrow> CHR ''/'' \<in> set b"
  by (cases b) (auto simp: startswith_def)

lemma takeWhile_no_slash:
  "CHR ''/'' \<notin> set b \<Longrightarrow> takeWhile (\<lambda>c. c \<noteq> CHR ''/'') (rev b @ CHR ''/'' # r) = rev b"
  by (induction b rule: rev_induct) auto

lemma basename_no_slash: "CHR ''/'' \<notin> set b \<Longrightarrow> os_path_basename b = b"
  unfolding os_path_basename_def
  by (induction b rule: rev_induct) auto

lemma basename_append_slash:
  "CHR ''/'' \<notin> set b \<Longrightarrow> os_path_basename (a @ CHR ''/'' # b) = b"
  unfolding os_path_basename_def
  by (simp add: takeWhile_no_slash)

lemma basename_join: "CHR ''/'' \<notin> set b \<Longrightarrow> os_path_basename (os_path_join a b) = b"
proof -
  assume h: "CHR ''/'' \<notin> set b"
  then have ns: "\<not> startswith b ''/''"
    using startswith_slash by blast
  show ?thesis
  proof (cases "a = [] \<or> last a = CHR ''/''")
    case False
    with h ns show ?thesis
      by (simp add: os_path_join_def basename_append_slash)
  next
    case True
    show ?thesis
    proof (cases "a = []")
      case True
      with h ns show ?thesis by (simp add: os_path_join_def basename_no_slash)
    next
      case False
      with True obtain a' where a: "a = a' @ [CHR ''/'']"
        by (metis append_butlast_last_id)
      have "os_path_join a b = a' @ CHR ''/'' # b"
        using ns by (simp add: os_path_join_def a)
      with h show ?thesis
        by (simp add: basename_append_slash)
    qed
  qed
qed

lemma which_Some:
  "shutil_which w cmd = Some p \<Longrightarrow>
     access_check w p \<and> (\<exists>d \<in> set (path_dirs w). p = os_path_join d cmd)"
  by (auto simp: shutil_which_def find_Some_iff)

lemma join_nonempty: "b \<noteq> [] \<Longrightarrow> os_path_join a b \<noteq> []"
  by (auto simp: os_path_join_def)

lemma which_python:
  assumes "cmd \<in> {''python3'', ''python''}" "shutil_which w cmd = Some p"
  shows "p \<noteq> [] \<and> os_path_exists w p \<and> startswith (os_path_basename p) ''python''"
proof -
  from assms(2) obtain d where a: "access_check w p" and p: "p = os_path_join d cmd"
    using which_Some by blast
  from assms(1) have "CHR ''/'' \<notin> set cmd" "cmd \<noteq> []" "startswith cmd ''python''"
    by (auto simp: startswith_def)
  with a p show ?thesis
    by (simp add: basename_join join_nonempty access_check_def)
qed

lemma first_usable_Some:
  "first_usable w cs = Some c \<Longrightarrow>
     Some c \<in> set cs \<and> c \<noteq> [] \<and> os_path_exists w c \<and> \<not> frozen_launcher w c"
proof (induction cs)
  case Nil
  then show ?case by simp
next
  case (Cons x xs)
  then show ?case by (cases x) (auto split: if_splits)
qed


section \<open>Facts about the file system\<close>



lemma grows_lookup:
  "grows f f' \<Longrightarrow> lookup f' l = lookup f l \<or> (lookup f l = None \<and> lookup f' l = Some Dir)"
  unfolding grows_def lookup_def by auto

lemma grows_lookup_Some: "grows f f' \<Longrightarrow> lookup f l = Some n \<Longrightarrow> lookup f' l = Some n"
  using grows_lookup [of f f' l] by auto


subsection \<open>Path resolution\<close>



lemma walk_grows: "grows f f' \<Longrightarrow> walk f l xs = Inr t \<Longrightarrow> walk f' l xs = Inr t"
proof (induction xs arbitrary: l)
  case Nil
  then show ?case by simp
next
  case (Cons c cs)
  from Cons.prems(2) have d: "lookup f l = Some Dir" and w: "walk f (step l c) cs = Inr t"
    by (auto split: option.splits node.splits)
  from grows_lookup_Some [OF Cons.prems(1) d] Cons.IH [OF Cons.prems(1) w] show ?case
    by simp
qed




subsection \<open>\<open>os.mkdir\<close>\<close>





lemma stat_Dir_iff: "stat w f p = Inr Dir \<longleftrightarrow> (\<exists>l. namei w f p = Inr l \<and> lookup f l = Some Dir)"
  by (auto simp: stat_def split: sum.splits option.splits)

lemma stat_grows: "grows f f' \<Longrightarrow> stat w f p = Inr Dir \<Longrightarrow> stat w f' p = Inr Dir"
  unfolding stat_Dir_iff namei_def using walk_grows grows_lookup_Some by blast

lemma is_dir_grows: "grows f f' \<Longrightarrow> is_dir w f p \<Longrightarrow> is_dir w f' p"
  unfolding is_dir_def using stat_grows by blast


subsection \<open>\<open>Path.mkdir\<close>\<close>

lemma Path_mkdir_created:
  "os_mkdir w p f = Inr g \<Longrightarrow> Path_mkdir w ps eo p f = (Inr (), g)"
  by (simp add: Path_mkdir.simps [of w ps eo p f])

lemma Path_mkdir_stop:
  "os_mkdir w p f = Inl e \<Longrightarrow> \<not> (e = OSError FileNotFoundError \<and> ps \<and> parent p \<noteq> p) \<Longrightarrow>
     Path_mkdir w ps eo p f =
       (if e \<noteq> OSError FileNotFoundError \<and> is_OSError e \<and> eo \<and> is_dir w f p
        then (Inr (), f) else (Inl e, f))"
  by (auto simp: Path_mkdir.simps [of w ps eo p f])

lemma Path_mkdir_recurse:
  "os_mkdir w p f = Inl (OSError FileNotFoundError) \<Longrightarrow> parent p \<noteq> p \<Longrightarrow>
     Path_mkdir w True eo p f =
       (case Path_mkdir w True True (parent p) f of
          (Inl e', f1) \<Rightarrow> (Inl e', f1)
        | (Inr u, f1) \<Rightarrow> Path_mkdir w False eo p f1)"
  by (simp add: Path_mkdir.simps [of w True eo p f])

text \<open>
  Induction along the calls of \<open>Path.mkdir\<close>, with the result at hand: the directory
  was made at once; the call ended without recursion; the parent could not be made;
  the parent was made and the directory tried again.
\<close>

lemma Path_mkdir_induct_res:
  assumes created: "\<And>w ps eo p f g. os_mkdir w p f = Inr g \<Longrightarrow> P w ps eo p f (Inr (), g)"
    and stop: "\<And>w ps eo p f e. os_mkdir w p f = Inl e \<Longrightarrow>
        \<not> (e = OSError FileNotFoundError \<and> ps \<and> parent p \<noteq> p) \<Longrightarrow>
        P w ps eo p f
          (if e \<noteq> OSError FileNotFoundError \<and> is_OSError e \<and> eo \<and> is_dir w f p
           then (Inr (), f) else (Inl e, f))"
    and parent_fails: "\<And>w eo p f e' y. os_mkdir w p f = Inl (OSError FileNotFoundError) \<Longrightarrow>
        parent p \<noteq> p \<Longrightarrow> Path_mkdir w True True (parent p) f = (Inl e', y) \<Longrightarrow>
        P w True True (parent p) f (Inl e', y) \<Longrightarrow> P w True eo p f (Inl e', y)"
    and parent_made: "\<And>w eo p f y. os_mkdir w p f = Inl (OSError FileNotFoundError) \<Longrightarrow>
        parent p \<noteq> p \<Longrightarrow> Path_mkdir w True True (parent p) f = (Inr (), y) \<Longrightarrow>
        P w True True (parent p) f (Inr (), y) \<Longrightarrow>
        P w False eo p y (Path_mkdir w False eo p y) \<Longrightarrow>
        P w True eo p f (Path_mkdir w False eo p y)"
  shows "P w ps eo p f (Path_mkdir w ps eo p f)"
proof (induction w ps eo p f rule: Path_mkdir.induct)
  case (1 w ps eo p f)
  show ?case
  proof (cases "os_mkdir w p f")
    case (Inr g)
    then show ?thesis by (simp add: Path_mkdir_created created)
  next
    case (Inl e)
    show ?thesis
    proof (cases "e = OSError FileNotFoundError \<and> ps \<and> parent p \<noteq> p")
      case False
      show ?thesis
        using stop [OF Inl False, of eo] by (simp only: Path_mkdir_stop [OF Inl False])
    next
      case True
      with Inl have m: "os_mkdir w p f = Inl (OSError FileNotFoundError)"
        and ps: "ps" and np: "parent p \<noteq> p"
        by simp_all
      obtain x y where xy: "Path_mkdir w True True (parent p) f = (x, y)"
        by (cases "Path_mkdir w True True (parent p) f")
      from m ps np have ih1: "P w True True (parent p) f (x, y)"
        using "1.IH"(1) [of "OSError FileNotFoundError"] xy by simp
      show ?thesis
      proof (cases x)
        case (Inl e')
        have "Path_mkdir w True eo p f = (Inl e', y)"
          by (simp add: Path_mkdir_recurse [OF m np] xy Inl)
        moreover have "P w True eo p f (Inl e', y)"
          using parent_fails [OF m np] xy ih1 Inl by simp
        ultimately show ?thesis using ps by simp
      next
        case (Inr u)
        have ih2: "P w False eo p y (Path_mkdir w False eo p y)"
          using "1.IH"(2) [of "OSError FileNotFoundError" x y u] m ps np xy Inr by simp
        have "Path_mkdir w True eo p f = Path_mkdir w False eo p y"
          by (simp add: Path_mkdir_recurse [OF m np] xy Inr)
        moreover have "P w True eo p f (Path_mkdir w False eo p y)"
          using parent_made [OF m np _ _ ih2] xy ih1 Inr by simp
        ultimately show ?thesis using ps by simp
      qed
    qed
  qed
qed






subsection \<open>The paths above a path\<close>

lemma set_ancestors_or_self:
  "set (ancestors_or_self p) = {PosixPath (p_root p) (take k (p_tail p)) | k. k \<le> length (p_tail p)}"
  by (auto simp: ancestors_or_self_def simp del: upt_Suc)

lemma self_in_ancestors: "p \<in> set (ancestors_or_self p)"
  by (cases p) (auto simp: set_ancestors_or_self intro!: exI [of _ "length (p_tail p)"])


lemma ancestors_parent: "set (ancestors_or_self (parent p)) \<subseteq> set (ancestors_or_self p)"
proof (cases "p_tail p = []")
  case True
  then show ?thesis by (simp add: parent_def)
next
  case False
  show ?thesis
  proof
    fix q assume "q \<in> set (ancestors_or_self (parent p))"
    with False obtain k where k: "k \<le> length (butlast (p_tail p))"
      and q: "q = PosixPath (p_root p) (take k (butlast (p_tail p)))"
      by (auto simp: set_ancestors_or_self parent_def)
    from k False have "k < length (p_tail p)"
      by (cases "p_tail p" rule: rev_cases) auto
    then have "take k (butlast (p_tail p)) = take k (p_tail p)"
      by (rule take_butlast)
    with k q show "q \<in> set (ancestors_or_self p)"
      by (auto simp: set_ancestors_or_self intro!: exI [of _ k])
  qed
qed

lemma parent_in_ancestors: "parent p \<in> set (ancestors_or_self p)"
  using ancestors_parent self_in_ancestors by blast



subsection \<open>Well-formed file systems\<close>





subsection \<open>When nothing is in the way\<close>








section \<open>Facts about the builder\<close>

lemma os_mkdir_error: "os_mkdir w p f = Inl e \<Longrightarrow> e = ValueError \<or> is_OSError e"
  by (auto simp: os_mkdir_def split: if_splits sum.splits)

lemma Path_mkdir_error_fst:
  "\<forall>e. fst (Path_mkdir w ps eo p f) = Inl e \<longrightarrow> e = ValueError \<or> is_OSError e"
  by (rule Path_mkdir_induct_res
        [where P = "\<lambda>w ps eo p f res. \<forall>e. fst res = Inl e \<longrightarrow> e = ValueError \<or> is_OSError e"])
     (auto dest: os_mkdir_error)

lemma Path_mkdir_error:
  "Path_mkdir w ps eo p f = (Inl e, f') \<Longrightarrow> e = ValueError \<or> is_OSError e"
  using Path_mkdir_error_fst [of w ps eo p f] by simp

lemma subprocess_run_eq:
  "subprocess_run w cmd env =
     (let out = (if bad_arguments cmd env then Rejected else run_process w cmd env (fs w)) in
      (case out of
         SpawnFailed e \<Rightarrow> Inl (OSError e)
       | Rejected \<Rightarrow> Inl ValueError
       | Exited rc f \<Rightarrow> if rc \<noteq> 0 then Inl (CalledProcessError rc cmd) else Inr (),
       (case out of Exited rc f \<Rightarrow> w\<lparr>fs := f\<rparr> | _ \<Rightarrow> w)
         \<lparr>spawned := spawned w
            @ [\<lparr>sp_cmd = cmd, sp_env = env, sp_fs = fs w, sp_outcome = out\<rparr>]\<rparr>))"
  unfolding subprocess_run_def Let_def
  by (cases "if bad_arguments cmd env then Rejected else run_process w cmd env (fs w)") simp_all

lemma subprocess_run_spawns:
  assumes "subprocess_run w cmd env = (res, w')"
  shows "\<exists>out. spawned w' = spawned w
                @ [\<lparr>sp_cmd = cmd, sp_env = env, sp_fs = fs w, sp_outcome = out\<rparr>]
       \<and> res = (case out of
                  SpawnFailed e \<Rightarrow> Inl (OSError e)
                | Rejected \<Rightarrow> Inl ValueError
                | Exited rc f \<Rightarrow> if rc \<noteq> 0 then Inl (CalledProcessError rc cmd) else Inr ())"
proof -
  let ?out = "if bad_arguments cmd env then Rejected else run_process w cmd env (fs w)"
  from assms have r: "res = (case ?out of
                  SpawnFailed e \<Rightarrow> Inl (OSError e)
                | Rejected \<Rightarrow> Inl ValueError
                | Exited rc f \<Rightarrow> if rc \<noteq> 0 then Inl (CalledProcessError rc cmd) else Inr ())"
    and w': "w' = (case ?out of Exited rc f \<Rightarrow> w\<lparr>fs := f\<rparr> | _ \<Rightarrow> w)
         \<lparr>spawned := spawned w
            @ [\<lparr>sp_cmd = cmd, sp_env = env, sp_fs = fs w, sp_outcome = ?out\<rparr>]\<rparr>"
    unfolding subprocess_run_eq Let_def by blast+
  have "spawned w' = spawned w
                @ [\<lparr>sp_cmd = cmd, sp_env = env, sp_fs = fs w, sp_outcome = ?out\<rparr>]"
    unfolding w' by (cases ?out) simp_all
  with r show ?thesis by blast
qed

lemma build_resolve_fails:
  "resolve_python_executable w pe = Inl e \<Longrightarrow>
     build_python_package_from_pip w pkg dest pe extra env = (Inl e, w)"
  by (simp add: build_python_package_from_pip_def)

lemma build_mkdir_fails:
  "resolve_python_executable w pe = Inr i \<Longrightarrow>
   Path_mkdir w True True (Path dest) (fs w) = (Inl e, f1) \<Longrightarrow>
     build_python_package_from_pip w pkg dest pe extra env = (Inl e, w\<lparr>fs := f1\<rparr>)"
  by (simp add: build_python_package_from_pip_def)

lemma build_mkdir_made:
  "resolve_python_executable w pe = Inr i \<Longrightarrow>
   Path_mkdir w True True (Path dest) (fs w) = (Inr (), f1) \<Longrightarrow>
     build_python_package_from_pip w pkg dest pe extra env =
       (case subprocess_run (w\<lparr>fs := f1\<rparr>) (pip_cmd i pkg dest extra) env of
          (Inl e, w') \<Rightarrow> (Inl e, w')
        | (Inr u, w') \<Rightarrow> (Inr i, w'))"
  by (cases extra) (simp_all add: build_python_package_from_pip_def pip_cmd_def Let_def)

lemma build_runs:
  assumes "resolve_python_executable w pe = Inr i"
    and "Path_mkdir w True True (Path dest) (fs w) = (Inr (), f1)"
    and "build_python_package_from_pip w pkg dest pe extra env = (res, w')"
  shows "\<exists>out. new_spawns w w' =
           [\<lparr>sp_cmd = pip_cmd i pkg dest extra, sp_env = env, sp_fs = f1, sp_outcome = out\<rparr>]
         \<and> res = (case out of
              SpawnFailed e \<Rightarrow> Inl (OSError e)
            | Rejected \<Rightarrow> Inl ValueError
            | Exited rc f \<Rightarrow>
                if rc \<noteq> 0 then Inl (CalledProcessError rc (pip_cmd i pkg dest extra)) else Inr i)"
proof -
  obtain r1 w1 where run: "subprocess_run (w\<lparr>fs := f1\<rparr>) (pip_cmd i pkg dest extra) env = (r1, w1)"
    by (cases "subprocess_run (w\<lparr>fs := f1\<rparr>) (pip_cmd i pkg dest extra) env")
  from assms(3) run have b: "w' = w1" "res = (case r1 of Inl e \<Rightarrow> Inl e | Inr u \<Rightarrow> Inr i)"
    by (auto simp: build_mkdir_made [OF assms(1,2)] split: sum.splits)
  from subprocess_run_spawns [OF run] obtain out where
    sp: "spawned w1 = spawned w
           @ [\<lparr>sp_cmd = pip_cmd i pkg dest extra, sp_env = env, sp_fs = f1, sp_outcome = out\<rparr>]"
    and r1: "r1 = (case out of
                  SpawnFailed e \<Rightarrow> Inl (OSError e)
                | Rejected \<Rightarrow> Inl ValueError
                | Exited rc f \<Rightarrow>
                    if rc \<noteq> 0 then Inl (CalledProcessError rc (pip_cmd i pkg dest extra))
                    else Inr ())"
    by auto
  from sp b(1) have "new_spawns w w' =
           [\<lparr>sp_cmd = pip_cmd i pkg dest extra, sp_env = env, sp_fs = f1, sp_outcome = out\<rparr>]"
    by (simp add: new_spawns_def)
  moreover from r1 b(2)
  have "res = (case out of
              SpawnFailed e \<Rightarrow> Inl (OSError e)
            | Rejected \<Rightarrow> Inl ValueError
            | Exited rc f \<Rightarrow>
                if rc \<noteq> 0 then Inl (CalledProcessError rc (pip_cmd i pkg dest extra)) else Inr i)"
    by (auto split: outcome.splits)
  ultimately show ?thesis by blast
qed

text \<open>The three ways through the function.\<close>

lemma build_cases:
  assumes "build_python_package_from_pip w pkg dest pe extra env = (res, w')"
  obtains (unresolved) e where "resolve_python_executable w pe = Inl e" "res = Inl e" "w' = w"
  | (no_dir) i e f1 where "resolve_python_executable w pe = Inr i"
      "Path_mkdir w True True (Path dest) (fs w) = (Inl e, f1)"
      "res = Inl e" "w' = w\<lparr>fs := f1\<rparr>"
  | (ran) i f1 out where "resolve_python_executable w pe = Inr i"
      "Path_mkdir w True True (Path dest) (fs w) = (Inr (), f1)"
      "new_spawns w w' =
           [\<lparr>sp_cmd = pip_cmd i pkg dest extra, sp_env = env, sp_fs = f1, sp_outcome = out\<rparr>]"
      "res = (case out of
              SpawnFailed e \<Rightarrow> Inl (OSError e)
            | Rejected \<Rightarrow> Inl ValueError
            | Exited rc f \<Rightarrow>
                if rc \<noteq> 0 then Inl (CalledProcessError rc (pip_cmd i pkg dest extra)) else Inr i)"
proof (cases "resolve_python_executable w pe")
  case (Inl e)
  have "(res, w') = (Inl e, w)"
    using assms build_resolve_fails [OF Inl, of pkg dest extra env] by (rule trans [OF sym])
  then have "res = Inl e" "w' = w" by blast+
  then show ?thesis by (rule unresolved [OF Inl])
next
  case (Inr i)
  obtain x f1 where m: "Path_mkdir w True True (Path dest) (fs w) = (x, f1)"
    by (cases "Path_mkdir w True True (Path dest) (fs w)")
  show ?thesis
  proof (cases x)
    case (Inl e)
    with m have m': "Path_mkdir w True True (Path dest) (fs w) = (Inl e, f1)"
      by (simp only:)
    have "(res, w') = (Inl e, w\<lparr>fs := f1\<rparr>)"
      using assms build_mkdir_fails [OF Inr m', of pkg extra env] by (rule trans [OF sym])
    then have "res = Inl e" "w' = w\<lparr>fs := f1\<rparr>" by blast+
    then show ?thesis by (rule no_dir [OF Inr m'])
  next
    case Inr': (Inr u)
    with m have m': "Path_mkdir w True True (Path dest) (fs w) = (Inr (), f1)"
      by simp
    from build_runs [OF Inr m' assms] show ?thesis
      by (elim exE conjE) (rule ran [OF Inr m'])
  qed
qed

section \<open>The example worlds, evaluated\<close>

lemma which_bundle_python3: "shutil_which bundle_world ''python3'' = Some ''/usr/bin/python3''"
  by (simp add: shutil_which_def bundle_world_def access_check_def os_path_join_def startswith_def)

lemma which_bundle_python: "shutil_which bundle_world ''python'' = None"
  by (simp add: shutil_which_def bundle_world_def access_check_def os_path_join_def startswith_def)

lemma which_bare: "shutil_which bare_world cmd = None"
  by (simp add: shutil_which_def bare_world_def access_check_def find_None_iff)

lemma which_plain_python3: "shutil_which plain_world ''python3'' = Some ''/usr/bin/python3''"
  by (simp add: shutil_which_def plain_world_def access_check_def os_path_join_def startswith_def)

lemma which_plain_python: "shutil_which plain_world ''python'' = None"
  by (simp add: shutil_which_def plain_world_def access_check_def os_path_join_def startswith_def)

lemma self_bundle: "sys_executable bundle_world = Some ''/opt/lpm/lpm''"
  by (simp add: bundle_world_def)

lemma frozen_launcher_bundle: "frozen_launcher bundle_world ''/opt/lpm/lpm''"
  by (simp add: frozen_launcher_def bundle_world_def os_path_basename_def startswith_def)

lemma candidates_bundle:
  "candidates bundle_world = [Some ''/opt/lpm/lpm'', Some ''/usr/bin/python3'', None]"
  by (simp add: candidates_def which_bundle_python3 which_bundle_python) (simp add: bundle_world_def)

lemma resolve_bundle: "resolve_python_executable bundle_world None = Inr ''/usr/bin/python3''"
  by (simp add: resolve_python_executable_def candidates_bundle frozen_launcher_bundle)
     (simp add: bundle_world_def frozen_launcher_def)

lemma candidates_bare: "candidates bare_world = [None, None]"
  by (simp add: candidates_def which_bare) (simp add: bare_world_def)

lemma resolve_bare:
  "resolve_python_executable bare_world None =
     Inl (RuntimeError ''Unable to determine a Python interpreter; tried the following candidates: None, None'')"
  by (simp add: resolve_python_executable_def candidates_bare resolve_message_def)

lemma candidates_plain:
  "candidates plain_world = [Some ''/opt/tools/runner'', Some ''/usr/bin/python3'', None]"
  by (simp add: candidates_def which_plain_python3 which_plain_python) (simp add: plain_world_def)

lemma resolve_plain: "resolve_python_executable plain_world None = Inr ''/opt/tools/runner''"
  by (simp add: resolve_python_executable_def candidates_plain)
     (simp add: plain_world_def frozen_launcher_def)

lemma spec_rejected_iff:
  "spec_rejected w c \<longleftrightarrow>
     (\<not> truthy c \<or> \<not> os_path_exists w (the c) \<or> frozen_launcher w (the c))"
  by (cases c) (auto simp: spec_rejected_def frozen_launcher_def)

lemma spec_rejected_bundle_self: "spec_rejected bundle_world (Some ''/opt/lpm/lpm'')"
  by (simp add: spec_rejected_iff frozen_launcher_bundle)

lemma spec_accepted_bundle_python3: "\<not> spec_rejected bundle_world (Some ''/usr/bin/python3'')"
  by (simp add: spec_rejected_iff frozen_launcher_def) (simp add: bundle_world_def)

lemma spec_resolve_bundle: "spec_resolve bundle_world = Some ''/usr/bin/python3''"
  by (simp add: spec_resolve_def self_bundle which_bundle_python3
      spec_rejected_bundle_self spec_accepted_bundle_python3)

lemma path_out_dir: "Path ''out/dir'' = PosixPath [] [''out'', ''dir'']"
  by (simp add: Path_def splitroot_def)

lemma path_build_python: "Path ''build/python'' = PosixPath [] [''build'', ''python'']"
  by (simp add: Path_def splitroot_def)

lemma path_dotdot: "Path ''a/../b'' = PosixPath [] [''a'', ''..'', ''b'']"
  by (simp add: Path_def splitroot_def)

lemma path_nul: "Path [CHR ''a'', CHR 0x00, CHR ''b''] = PosixPath [] [[CHR ''a'', CHR 0x00, CHR ''b'']]"
  by (simp add: Path_def splitroot_def)

lemma str_out_dir: "str_path (PosixPath [] [''out'', ''dir'']) = ''out/dir''"
  by (simp add: str_path_def)

lemma str_build_python: "str_path (PosixPath [] [''build'', ''python'']) = ''build/python''"
  by (simp add: str_path_def)

lemmas mkdir_eval = Path_mkdir.simps os_mkdir_def namei_def start_def lookup_def step_def
  parent_def is_dir_def stat_def has_nul_def

lemma mkdir_bundle:
  "Path_mkdir bundle_world True True (Path ''out/dir'') (fs bundle_world) =
     (Inr (), [[''work''] \<mapsto> Dir, [''work'', ''out''] \<mapsto> Dir,
               [''work'', ''out'', ''dir''] \<mapsto> Dir])"
  by (simp add: path_out_dir mkdir_eval bundle_world_def)

lemma mkdir_plain:
  "Path_mkdir plain_world True True (Path ''build/python'') (fs plain_world) =
     (Inr (), fs plain_world)"
  by (simp add: path_build_python mkdir_eval plain_world_def)

lemma mkdir_blocked:
  "Path_mkdir blocked_world True True (Path ''a/../b'') (fs blocked_world) =
     (Inl (OSError FileExistsError),
      [[''work''] \<mapsto> Dir, [''work'', ''b''] \<mapsto> File, [''work'', ''a''] \<mapsto> Dir])"
  by (simp add: path_dotdot mkdir_eval blocked_world_def)

lemma mkdir_nul:
  "Path_mkdir bundle_world True True (Path [CHR ''a'', CHR 0x00, CHR ''b'']) (fs bundle_world) =
     (Inl ValueError, fs bundle_world)"
  by (simp add: path_nul mkdir_eval bundle_world_def)

lemma resolve_blocked: "resolve_python_executable blocked_world None = Inr ''/usr/bin/python3''"
  by (simp add: resolve_python_executable_def candidates_def frozen_launcher_def blocked_world_def)

lemma build_bundle:
  "build_python_package_from_pip bundle_world ''requests'' ''out/dir'' None
       (Some [''--no-cache-dir'', ''-v'']) None =
     (Inr ''/usr/bin/python3'',
      bundle_world
        \<lparr>fs := [[''work''] \<mapsto> Dir, [''work'', ''out''] \<mapsto> Dir,
                [''work'', ''out'', ''dir''] \<mapsto> Dir],
         spawned :=
           [\<lparr>sp_cmd = [''/usr/bin/python3'', ''-m'', ''pip'', ''wheel'', ''requests'', ''--no-deps'',
                       ''-w'', ''out/dir'', ''--no-cache-dir'', ''-v''],
             sp_env = None,
             sp_fs = [[''work''] \<mapsto> Dir, [''work'', ''out''] \<mapsto> Dir,
                      [''work'', ''out'', ''dir''] \<mapsto> Dir],
             sp_outcome =
               Exited 0 [[''work''] \<mapsto> Dir, [''work'', ''out''] \<mapsto> Dir,
                         [''work'', ''out'', ''dir''] \<mapsto> Dir]\<rparr>]\<rparr>)"
  by (simp add: build_mkdir_made [OF resolve_bundle mkdir_bundle] pip_cmd_def path_out_dir
      str_out_dir subprocess_run_def bad_arguments_def)
     (simp add: bundle_world_def)

lemma build_plain:
  "build_python_package_from_pip plain_world ''requests'' ''build/python'' None None
       (Some [(''PIP_INDEX_URL'', ''http://localhost/simple'')]) =
     (Inl (CalledProcessError 1
            [''/opt/tools/runner'', ''-m'', ''pip'', ''wheel'', ''requests'', ''--no-deps'', ''-w'',
             ''build/python'']),
      plain_world
        \<lparr>spawned :=
           [\<lparr>sp_cmd = [''/opt/tools/runner'', ''-m'', ''pip'', ''wheel'', ''requests'', ''--no-deps'',
                       ''-w'', ''build/python''],
             sp_env = Some [(''PIP_INDEX_URL'', ''http://localhost/simple'')],
             sp_fs = fs plain_world,
             sp_outcome = Exited 1 (fs plain_world)\<rparr>]\<rparr>)"
  by (simp add: build_mkdir_made [OF resolve_plain mkdir_plain] pip_cmd_def path_build_python
      str_build_python subprocess_run_def bad_arguments_def)
     (simp add: plain_world_def)

text \<open>
  A destination through \<open>..\<close>: \<open>a\<close> is made on the way, then \<open>a/../b\<close> is the file
  \<open>b\<close>, and nothing is run.
\<close>

lemma build_blocked:
  "build_python_package_from_pip blocked_world ''requests'' ''a/../b'' None None None =
     (Inl (OSError FileExistsError),
      blocked_world
        \<lparr>fs := [[''work''] \<mapsto> Dir, [''work'', ''b''] \<mapsto> File, [''work'', ''a''] \<mapsto> Dir]\<rparr>)"
  by (simp add: build_mkdir_fails [OF resolve_blocked mkdir_blocked])

text \<open>A destination with a NUL character: \<open>ValueError\<close>, and nothing is made or run.\<close>

lemma build_nul:
  "build_python_package_from_pip bundle_world ''requests'' [CHR ''a'', CHR 0x00, CHR ''b'']
       None None None =
     (Inl ValueError, bundle_world\<lparr>fs := fs bundle_world\<rparr>)"
  by (simp add: build_mkdir_fails [OF resolve_bundle mkdir_nul])

lemma spawns_bundle:
  "new_spawns bundle_world (bundle_world\<lparr>fs := f, spawned := ss\<rparr>) = ss"
  by (simp add: new_spawns_def bundle_world_def)

lemma spawns_plain:
  "new_spawns plain_world (plain_world\<lparr>spawned := ss\<rparr>) = ss"
  by (simp add: new_spawns_def plain_world_def)



lemma obstructed_blocked:
  "\<not> unobstructed blocked_world (fs blocked_world) (PosixPath [] [''a'', ''..'', ''b''])"
  by (simp add: unobstructed_def ancestors_or_self_def location_of_def start_def step_def
      has_nul_def lookup_def blocked_world_def)


section \<open>Properties of the resolver\<close>

text \<open>
  C1, as the specification states it: every returned path existed on disk at resolution
  time, also when a non-empty explicit path was supplied. It fails: an explicit path
  that does not exist is returned.
\<close>

theorem explicit_unchecked_counterexample:
  "resolve_python_executable bundle_world (Some ''/no/such/python'') = Inr ''/no/such/python''
   \<and> \<not> os_path_exists bundle_world ''/no/such/python''"
  by (simp add: resolve_python_executable_def bundle_world_def)

text \<open>
  C1, amended. A path returned for a non-empty explicit argument is that argument; a
  path returned otherwise existed on disk at resolution time and is not the frozen
  launcher.
\<close>

theorem resolved_exists_unless_explicit:
  assumes "resolve_python_executable w explicit = Inr p"
  shows "if truthy explicit then explicit = Some p
         else os_path_exists w p \<and> \<not> frozen_launcher w p"
proof (cases "truthy explicit")
  case True
  with assms show ?thesis
    by (cases explicit) (auto simp: resolve_python_executable_def)
next
  case False
  with assms have "first_usable w (candidates w) = Some p"
    by (auto simp: resolve_python_executable_def split: option.splits)
  with False show ?thesis
    using first_usable_Some by simp
qed

theorem resolved_exists_unless_explicit_witness:
  "resolve_python_executable bundle_world None = Inr ''/usr/bin/python3''
   \<and> os_path_exists bundle_world ''/usr/bin/python3''
   \<and> \<not> frozen_launcher bundle_world ''/usr/bin/python3''"
  using resolved_exists_unless_explicit [OF resolve_bundle] resolve_bundle by simp

text \<open>
  C2. A non-empty explicit interpreter path is returned as it is, whatever the world
  says about its existence.
\<close>

theorem explicit_returned_verbatim:
  "s \<noteq> [] \<Longrightarrow> resolve_python_executable w (Some s) = Inr s"
  by (simp add: resolve_python_executable_def)

theorem explicit_returned_verbatim_witness:
  "resolve_python_executable bare_world (Some ''/no/such/python'') = Inr ''/no/such/python''
   \<and> os_path_exists bare_world ''/no/such/python'' = False"
  using explicit_returned_verbatim [of "''/no/such/python''" bare_world]
  by (simp add: bare_world_def)

text \<open>
  C3, as the specification states it: when the running interpreter does not exist and
  PATH has neither \<open>python3\<close> nor \<open>python\<close>, the message lists three candidates,
  the missing running interpreter among them. It fails: the candidate list has two
  entries and the message names two.
\<close>

theorem message_omits_missing_self_counterexample:
  "sys_executable bare_world = Some ''/opt/lpm/lpm''
   \<and> \<not> os_path_exists bare_world ''/opt/lpm/lpm''
   \<and> shutil_which bare_world ''python3'' = None
   \<and> shutil_which bare_world ''python'' = None
   \<and> candidates bare_world = [None, None]
   \<and> resolve_python_executable bare_world None =
       Inl (RuntimeError ''Unable to determine a Python interpreter; tried the following candidates: None, None'')"
  by (simp add: which_bare candidates_bare resolve_bare) (simp add: bare_world_def)

text \<open>
  C3, amended. When the running interpreter is absent, empty or not on disk and PATH has
  neither \<open>python3\<close> nor \<open>python\<close>, resolution without an explicit path fails with
  a \<open>RuntimeError\<close> whose message lists the two PATH results, both \<open>None\<close>; the
  running interpreter is not in the list.
\<close>

theorem no_interpreter_message:
  assumes "\<not> (truthy (sys_executable w) \<and> os_path_exists w (the (sys_executable w)))"
    and "shutil_which w ''python3'' = None"
    and "shutil_which w ''python'' = None"
    and "\<not> truthy explicit"
  shows "candidates w = [None, None]
     \<and> resolve_python_executable w explicit =
       Inl (RuntimeError ''Unable to determine a Python interpreter; tried the following candidates: None, None'')"
  using assms by (simp add: resolve_python_executable_def candidates_def resolve_message_def)

theorem no_interpreter_message_witness:
  "candidates bare_world = [None, None]
   \<and> resolve_python_executable bare_world None =
       Inl (RuntimeError ''Unable to determine a Python interpreter; tried the following candidates: None, None'')"
  using no_interpreter_message [of bare_world None]
  by (simp add: which_bare) (simp add: bare_world_def)

text \<open>
  C4. The frozen-launcher test rejects a candidate only if it is the running
  interpreter. A path that \<open>shutil.which\<close> found for \<open>python3\<close> or \<open>python\<close>
  never meets the test, so the loop returns it as soon as it reaches it, whatever
  the frozen flag, the running interpreter and PATH are. When the running interpreter
  is rejected by the test, the result is what PATH has: \<open>python3\<close>, else
  \<open>python\<close>, else the error.
\<close>

theorem heuristic_rejects_only_self:
  "(frozen_launcher w c \<longrightarrow> sys_executable w = Some c)
   \<and> (cmd \<in> {''python3'', ''python''} \<longrightarrow> shutil_which w cmd = Some p \<longrightarrow>
        \<not> frozen_launcher w p \<and> first_usable w (Some p # cs) = Some p)
   \<and> (frozen_launcher w c \<longrightarrow>
        resolve_python_executable w None =
          (case shutil_which w ''python3'' of
             Some p3 \<Rightarrow> Inr p3
           | None \<Rightarrow>
               (case shutil_which w ''python'' of
                  Some p2 \<Rightarrow> Inr p2
                | None \<Rightarrow> Inl (RuntimeError (resolve_message (candidates w))))))"
proof (intro conjI impI)
  assume "frozen_launcher w c"
  then show "sys_executable w = Some c" by (simp add: frozen_launcher_def)
next
  assume a: "cmd \<in> {''python3'', ''python''}" "shutil_which w cmd = Some p"
  then show "\<not> frozen_launcher w p"
    using which_python [OF a] by (simp add: frozen_launcher_def)
  with a show "first_usable w (Some p # cs) = Some p"
    using which_python [OF a] by simp
next
  assume f: "frozen_launcher w c"
  then have self: "sys_executable w = Some c" by (simp add: frozen_launcher_def)
  have skip: "first_usable w (candidates w) =
      first_usable w [shutil_which w ''python3'', shutil_which w ''python'']"
    using f self by (simp add: candidates_def)
  have acc: "first_usable w (Some q # cs) = Some q"
    if "cmd \<in> {''python3'', ''python''}" "shutil_which w cmd = Some q" for cmd q cs
    using which_python [OF that] by (simp add: frozen_launcher_def)
  show "resolve_python_executable w None =
          (case shutil_which w ''python3'' of
             Some p3 \<Rightarrow> Inr p3
           | None \<Rightarrow>
               (case shutil_which w ''python'' of
                  Some p2 \<Rightarrow> Inr p2
                | None \<Rightarrow> Inl (RuntimeError (resolve_message (candidates w)))))"
  proof (cases "shutil_which w ''python3''")
    case (Some p3)
    with acc [of "''python3''" p3] skip show ?thesis
      by (simp add: resolve_python_executable_def)
  next
    case None
    show ?thesis
    proof (cases "shutil_which w ''python''")
      case (Some p2)
      with None acc [of "''python''" p2 "[]"] skip show ?thesis
        by (simp add: resolve_python_executable_def)
    next
      case None': None
      with None skip show ?thesis
        by (simp add: resolve_python_executable_def)
    qed
  qed
qed

theorem heuristic_rejects_only_self_witness:
  "frozen_launcher bundle_world ''/opt/lpm/lpm''
   \<and> sys_executable bundle_world = Some ''/opt/lpm/lpm''
   \<and> shutil_which bundle_world ''python3'' = Some ''/usr/bin/python3''
   \<and> \<not> frozen_launcher bundle_world ''/usr/bin/python3''
   \<and> first_usable bundle_world [Some ''/usr/bin/python3'', None] = Some ''/usr/bin/python3''
   \<and> resolve_python_executable bundle_world None = Inr ''/usr/bin/python3''"
  using heuristic_rejects_only_self
    [of bundle_world "''/opt/lpm/lpm''" "''python3''" "''/usr/bin/python3''" "[None]"]
  by (simp add: which_bundle_python3 frozen_launcher_bundle)

text \<open>
  C5. Without an explicit path the resolver returns the first of the running
  interpreter, \<open>python3\<close> on PATH and \<open>python\<close> on PATH, in this order, that is
  non-empty, exists on disk and is not rejected by the frozen-launcher test; when there
  is none it raises.
\<close>

theorem resolve_is_first_surviving:
  assumes "\<not> truthy explicit"
  shows "resolve_python_executable w explicit =
     (case spec_resolve w of
        Some p \<Rightarrow> Inr p
      | None \<Rightarrow> Inl (RuntimeError (resolve_message (candidates w))))"
proof -
  let ?all = "[sys_executable w, shutil_which w ''python3'', shutil_which w ''python'']"
  have step: "first_usable w cs =
      (case List.find (\<lambda>c. \<not> spec_rejected w c) cs of None \<Rightarrow> None | Some c \<Rightarrow> c)" for cs
    by (induction cs) (auto simp: spec_rejected_iff)
  have "first_usable w (candidates w) = first_usable w ?all"
    by (simp add: candidates_def)
  then have "first_usable w (candidates w) = spec_resolve w"
    by (simp only: step spec_resolve_def)
  with assms show ?thesis
    by (simp add: resolve_python_executable_def split: option.splits)
qed

theorem resolve_is_first_surviving_witness:
  "spec_rejected bundle_world (sys_executable bundle_world)
   \<and> spec_resolve bundle_world = Some ''/usr/bin/python3''
   \<and> resolve_python_executable bundle_world None = Inr ''/usr/bin/python3''"
  using resolve_is_first_surviving [of None bundle_world]
  by (simp add: spec_resolve_bundle self_bundle spec_rejected_bundle_self)

text \<open>
  C6. In a process that is not frozen the running interpreter, when it is non-empty
  and exists on disk, is the result, whatever its base name.
\<close>

theorem unfrozen_self_accepted:
  assumes "\<not> sys_frozen w" "sys_executable w = Some e" "e \<noteq> []" "os_path_exists w e"
    and "\<not> truthy explicit"
  shows "resolve_python_executable w explicit = Inr e"
  using assms by (simp add: resolve_python_executable_def candidates_def frozen_launcher_def)

theorem unfrozen_self_accepted_witness:
  "\<not> startswith (os_path_basename ''/opt/tools/runner'') ''python''
   \<and> resolve_python_executable plain_world None = Inr ''/opt/tools/runner''"
  using unfrozen_self_accepted [of plain_world "''/opt/tools/runner''" None]
  by (simp add: plain_world_def os_path_basename_def startswith_def)

section \<open>Properties of the builder\<close>



text \<open>
  C8. The command lines passed to \<open>subprocess.run\<close> by a call are: none when
  resolution or \<open>mkdir\<close> fails, and otherwise exactly one, made of the interpreter,
  \<open>-m pip wheel\<close>, the package, \<open>--no-deps\<close>, \<open>-w\<close> and the output
  directory, followed by the extra arguments as they were given, in their order.
\<close>

theorem extra_args_after_fixed_tokens:
  assumes "build_python_package_from_pip w pkg dest pe extra env = (res, w')"
  shows "map sp_cmd (new_spawns w w') =
     (case resolve_python_executable w pe of
        Inl e \<Rightarrow> []
      | Inr interpreter \<Rightarrow>
          if fst (Path_mkdir w True True (Path dest) (fs w)) = Inr ()
          then [[interpreter, ''-m'', ''pip'', ''wheel'', pkg, ''--no-deps'', ''-w'',
                 str_path (Path dest)]
                @ (case extra of None \<Rightarrow> [] | Some xs \<Rightarrow> xs)]
          else [])"
  using assms
proof (cases rule: build_cases)
  case (unresolved e)
  then show ?thesis by (simp add: new_spawns_def)
next
  case (no_dir i e f1)
  then show ?thesis by (simp add: new_spawns_def)
next
  case (ran i f1 out)
  then show ?thesis by (simp add: pip_cmd_def)
qed

theorem extra_args_after_fixed_tokens_witness:
  "map sp_cmd (new_spawns bundle_world
       (snd (build_python_package_from_pip bundle_world ''requests'' ''out/dir'' None
               (Some [''--no-cache-dir'', ''-v'']) None))) =
     [[''/usr/bin/python3'', ''-m'', ''pip'', ''wheel'', ''requests'', ''--no-deps'', ''-w'',
       ''out/dir'', ''--no-cache-dir'', ''-v'']]"
  using extra_args_after_fixed_tokens [OF build_bundle]
  by (simp add: build_bundle spawns_bundle resolve_bundle mkdir_bundle [unfolded path_out_dir]
      path_out_dir str_out_dir)

text \<open>
  C9. A call runs the tool at most once. It raises \<open>CalledProcessError\<close> exactly
  when the tool ran and exited with a status other than 0; when the tool exited
  with status 0 the call returns the interpreter, which is the first word of the command
  that ran and the result of resolution.
\<close>

theorem build_error_iff_nonzero_exit:
  assumes "build_python_package_from_pip w pkg dest pe extra env = (res, w')"
  shows "length (new_spawns w w') \<le> 1
     \<and> ((\<exists>rc cmd. res = Inl (CalledProcessError rc cmd))
          \<longleftrightarrow> (\<exists>s \<in> set (new_spawns w w'). \<exists>rc f. sp_outcome s = Exited rc f \<and> rc \<noteq> 0))
     \<and> (\<forall>s \<in> set (new_spawns w w'). \<forall>f. sp_outcome s = Exited 0 f \<longrightarrow>
           res = Inr (hd (sp_cmd s)) \<and> resolve_python_executable w pe = Inr (hd (sp_cmd s)))"
  using assms
proof (cases rule: build_cases)
  case (unresolved e)
  then have "\<exists>m. e = RuntimeError m"
    by (auto simp: resolve_python_executable_def split: if_splits option.splits)
  with unresolved show ?thesis by (auto simp: new_spawns_def)
next
  case (no_dir i e f1)
  from Path_mkdir_error [OF no_dir(2)] have "\<forall>rc cmd. e \<noteq> CalledProcessError rc cmd"
    by auto
  with no_dir show ?thesis by (simp add: new_spawns_def)
next
  case (ran i f1 out)
  then show ?thesis
    by (cases out) (auto simp: pip_cmd_def)
qed

theorem build_error_iff_nonzero_exit_witness:
  "fst (build_python_package_from_pip plain_world ''requests'' ''build/python'' None None
          (Some [(''PIP_INDEX_URL'', ''http://localhost/simple'')])) =
     Inl (CalledProcessError 1
            [''/opt/tools/runner'', ''-m'', ''pip'', ''wheel'', ''requests'', ''--no-deps'', ''-w'',
             ''build/python''])
   \<and> map sp_outcome (new_spawns plain_world
         (snd (build_python_package_from_pip plain_world ''requests'' ''build/python'' None None
            (Some [(''PIP_INDEX_URL'', ''http://localhost/simple'')])))) =
       [Exited 1 (fs plain_world)]
   \<and> fst (build_python_package_from_pip bundle_world ''requests'' ''out/dir'' None
          (Some [''--no-cache-dir'', ''-v'']) None) = Inr ''/usr/bin/python3''
   \<and> map (\<lambda>s. case sp_outcome s of Exited rc f \<Rightarrow> Some rc | _ \<Rightarrow> None)
        (new_spawns bundle_world
         (snd (build_python_package_from_pip bundle_world ''requests'' ''out/dir'' None
          (Some [''--no-cache-dir'', ''-v'']) None))) = [Some 0]"
  using build_error_iff_nonzero_exit [OF build_plain] build_error_iff_nonzero_exit [OF build_bundle]
  by (simp add: build_plain build_bundle spawns_plain spawns_bundle)

text \<open>
  C10. When resolution fails, the call raises that error and leaves the world as it
  was: no directory is made and no process is started.
\<close>

theorem resolution_failure_touches_nothing:
  assumes "resolve_python_executable w pe = Inl e"
  shows "build_python_package_from_pip w pkg dest pe extra env = (Inl e, w)"
  using assms by (simp add: build_python_package_from_pip_def)

theorem resolution_failure_touches_nothing_witness:
  "build_python_package_from_pip bare_world ''requests'' ''out/dir'' None None None =
     (Inl (RuntimeError ''Unable to determine a Python interpreter; tried the following candidates: None, None''),
      bare_world)
   \<and> fs bare_world [''work'', ''out''] = None \<and> spawned bare_world = []"
  using resolution_failure_touches_nothing [OF resolve_bare, of "''requests''" "''out/dir''" None None]
  by (simp add: bare_world_def)

end
